theory Spec2Isabelle
  imports Main "HOL-Library.Word"
begin

section \<open>The virtual weather station of pywot (demo/virtual\_weather\_station.py)\<close>

text \<open>
  The station polls a weather service. One call of \<open>get_weather_data\<close> fetches a JSON
  document, keeps it in \<open>self.weather_data\<close>, keeps the document it replaces in
  \<open>self.fallback_weather_data\<close>, and copies three fields of the current document into
  \<open>self.temperature\<close>, \<open>self.barometric_pressure\<close> and \<open>self.wind_speed\<close>.

  The network and the JSON parser are the environment. What they do in one call is an
  input of the model (\<open>fetch_outcome\<close>); everything the method itself does with it
  (the two assignments, the two exception handlers, the three lookups) is computed.
\<close>

subsection \<open>Exceptions\<close>

text \<open>
  The exceptions that reach the handlers of \<open>get_weather_data\<close> or leave it.
  \<open>CancelledError\<close> is asyncio's cancellation, \<open>TimeoutError\<close> is what
  \<open>async_timeout.timeout\<close> raises when \<open>seconds_for_timeout\<close> is exceeded,
  \<open>ClientError\<close> is aiohttp's transport error (connection refused, DNS failure,
  broken payload), \<open>JSONDecodeError\<close> is what \<open>json.loads\<close> raises on a malformed
  body. \<open>KeyError\<close> and \<open>TypeError\<close> come from subscripting, \<open>IndexError\<close> and
  \<open>ValueError\<close> from \<open>str.format\<close>.
\<close>

datatype exn =
    CancelledError
  | TimeoutError
  | ClientError
  | JSONDecodeError
  | KeyError
  | TypeError
  | IndexError
  | ValueError

subsection \<open>Parsed documents\<close>

text \<open>
  What \<open>json.loads\<close> returns: \<open>None\<close>, a bool, an int, a float, a str, a list or a
  dict with str keys. A float is kept as its binary64 bit pattern; the station only moves
  numbers around and never computes with one. A dict is the list of its items, looked up
  by key.
\<close>

datatype json =
    JNull
  | JBool bool
  | JInt int
  | JFloat "64 word"
  | JStr string
  | JArr "json list"
  | JObj "(string \<times> json) list"

text \<open>
  Python's \<open>d[k]\<close> for a str key \<open>k\<close>: only a dict can be subscripted with a str; a
  missing key raises \<open>KeyError\<close>, every other value raises \<open>TypeError\<close>.
\<close>

fun subscript :: "json \<Rightarrow> string \<Rightarrow> exn + json" where
  "subscript (JObj kvs) k = (case map_of kvs k of None \<Rightarrow> Inl KeyError | Some v \<Rightarrow> Inr v)"
| "subscript JNull k = Inl TypeError"
| "subscript (JBool b) k = Inl TypeError"
| "subscript (JInt i) k = Inl TypeError"
| "subscript (JFloat f) k = Inl TypeError"
| "subscript (JStr s) k = Inl TypeError"
| "subscript (JArr xs) k = Inl TypeError"

text \<open>The expression \<open>self.weather_data['current_observation'][k]\<close> of lines 87 to 89.\<close>

definition observation :: "json \<Rightarrow> string \<Rightarrow> exn + json" where
  "observation d k =
     (case subscript d ''current_observation'' of
        Inl e \<Rightarrow> Inl e
      | Inr ob \<Rightarrow> subscript ob k)"

subsection \<open>Properties and the station object\<close>

text \<open>
  Modelled from the spec: \<open>WoTThing.wot_property\<close> is defined in the \<open>pywot\<close> package,
  which is not part of the demo file. The spec describes an exposed property as a named
  value with descriptive metadata (a unit string and a human description) and an initial
  default, and the projection as having no side effect beyond updating the three value
  holders. So a property is a record of its name, its current value, its description and
  its unit, and assigning to the property replaces the value and nothing else.

  The strings are the bytes of the source file, which is UTF-8: the degree Fahrenheit
  sign is the three bytes E2 84 89.

  A property is reached through the class attribute its declaration is bound to. The
  demo binds the three declarations to \<open>temperature\<close>, \<open>barometic_pressure\<close> and
  \<open>wind_speed\<close> (lines 91, 100 and 108); the second one, whose name is
  \<open>'barometric_pressure'\<close>, is bound to an attribute spelled without the \<open>r\<close>. Line 88
  assigns \<open>self.barometric_pressure\<close>, which is no property: the assignment creates or
  overwrites a plain attribute of the object, and the declared property is not touched.
  The object therefore has two holders for the pressure: the property
  \<open>barometic_pressure\<close>, and the plain attribute \<open>barometric_pressure\<close>, which does
  not exist (\<open>None\<close>) until line 88 has run once.
\<close>

record wot_property =
  name :: string
  val :: json
  description :: string
  units :: string

text \<open>
  Modelled from the spec: the setter of a property is part of \<open>pywot\<close>. An assignment
  \<open>self.temperature = v\<close> updates the value holder of the property.
\<close>

definition assign :: "wot_property \<Rightarrow> json \<Rightarrow> wot_property" where
  "assign p v = p\<lparr>val := v\<rparr>"

record station =
  weather_data :: json
  fallback_weather_data :: json
  temperature :: wot_property
  barometic_pressure :: wot_property
  wind_speed :: wot_property
  barometric_pressure :: "json option"

definition fahrenheit :: string where
  "fahrenheit = [CHR 0xE2, CHR 0x84, CHR 0x89]"

text \<open>
  The object after \<open>__init__\<close> (lines 66 to 73), with the three properties at the
  \<open>initial_value\<close> of their declarations (lines 91 to 115) and no attribute
  \<open>barometric_pressure\<close> yet.
\<close>

definition init_station :: station where
  "init_station =
     \<lparr>weather_data = JObj [],
      fallback_weather_data =
        JObj [(''current_observation'',
               JObj [(''temp_f'', JInt 0), (''pressure_in'', JInt 0), (''wind_mph'', JInt 0)])],
      temperature =
        \<lparr>name = ''temperature'', val = JInt 0,
         description = ''the temperature in '' @ fahrenheit, units = fahrenheit\<rparr>,
      barometic_pressure =
        \<lparr>name = ''barometric_pressure'', val = JInt 30,
         description = ''the air pressure in inches'', units = ''in''\<rparr>,
      wind_speed =
        \<lparr>name = ''wind_speed'', val = JInt 30,
         description = ''the wind speed in mph'', units = ''mph''\<rparr>,
      barometric_pressure = None\<rparr>"

subsection \<open>One call of \<open>get_weather_data\<close>\<close>

text \<open>
  What the network and the parser do in one call. The \<open>try\<close> block has two places where
  it can be left by an exception, one on each side of the rotation in line 80:
  \<^item> \<open>GetRaises e\<close>: \<open>e\<close> is raised before a response is obtained, while the session
    or the timeout is entered or, the usual case, while \<open>session.get(config.target_url)\<close>
    is awaited; the body of the innermost \<open>async with\<close> is not entered;
  \<^item> \<open>TextRaises e\<close>: the response is obtained, line 80 runs, and then
    \<open>await response.text()\<close> or \<open>json.loads\<close> raises \<open>e\<close>, before the assignment of
    line 81;
  \<^item> \<open>Parsed d\<close>: the response is obtained, its body is read and parses to \<open>d\<close>.
  Leaving the three context managers is taken not to raise.
\<close>

datatype fetch_outcome =
    GetRaises exn
  | TextRaises exn
  | Parsed json

text \<open>The \<open>try\<close> block, lines 77 to 81: the exception that leaves it, if any, and the object.\<close>

fun try_block :: "fetch_outcome \<Rightarrow> station \<Rightarrow> exn option \<times> station" where
  "try_block (GetRaises e) s = (Some e, s)"
| "try_block (TextRaises e) s = (Some e, s\<lparr>fallback_weather_data := weather_data s\<rparr>)"
| "try_block (Parsed d) s =
     (None, s\<lparr>fallback_weather_data := weather_data s, weather_data := d\<rparr>)"

text \<open>
  Lines 87 to 89. Each line evaluates its right-hand side first; an exception there
  leaves the method with the assignments made so far. Lines 87 and 89 assign to a
  property; line 88 assigns the plain attribute \<open>barometric_pressure\<close>.
\<close>

definition assign_properties :: "station \<Rightarrow> exn option \<times> station" where
  "assign_properties s =
     (case observation (weather_data s) ''temp_f'' of
        Inl e \<Rightarrow> (Some e, s)
      | Inr t \<Rightarrow>
          let s1 = s\<lparr>temperature := assign (temperature s) t\<rparr> in
          (case observation (weather_data s1) ''pressure_in'' of
             Inl e \<Rightarrow> (Some e, s1)
           | Inr p \<Rightarrow>
               let s2 = s1\<lparr>barometric_pressure := Some p\<rparr> in
               (case observation (weather_data s2) ''wind_mph'' of
                  Inl e \<Rightarrow> (Some e, s2)
                | Inr w \<Rightarrow> (None, s2\<lparr>wind_speed := assign (wind_speed s2) w\<rparr>))))"

text \<open>A record of the \<open>logging\<close> module; the station only ever calls \<open>logging.critical\<close>.\<close>

datatype log_record = Critical exn

text \<open>
  What one call leaves behind: the exception raised to the caller (\<open>None\<close> when the
  method returns), the log records it emitted, and the object.
\<close>

record cycle =
  raised :: "exn option"
  logged :: "log_record list"
  station_after :: station

text \<open>
  Lines 75 to 89. The first handler re-raises a cancellation; the second logs any other
  exception and restores \<open>weather_data\<close> from \<open>fallback_weather_data\<close>; the three
  assignments follow the \<open>try\<close> statement and are outside both handlers.
\<close>

definition get_weather_data :: "fetch_outcome \<Rightarrow> station \<Rightarrow> cycle" where
  "get_weather_data out s =
     (case try_block out s of
        (Some e, s1) \<Rightarrow>
          if e = CancelledError
          then \<lparr>raised = Some e, logged = [], station_after = s1\<rparr>
          else
            let s2 = s1\<lparr>weather_data := fallback_weather_data s1\<rparr>;
                (r, s3) = assign_properties s2
            in \<lparr>raised = r, logged = [Critical e], station_after = s3\<rparr>
      | (None, s1) \<Rightarrow>
          let (r, s3) = assign_properties s1
          in \<lparr>raised = r, logged = [], station_after = s3\<rparr>)"

text \<open>
  Successive calls on one object: each starts from the object the previous call left,
  also when that call raised.
\<close>

definition poll :: "fetch_outcome list \<Rightarrow> station \<Rightarrow> station" where
  "poll outs s = foldl (\<lambda>s out. station_after (get_weather_data out s)) s outs"

text \<open>A fetch that fails: an exception leaves the \<open>try\<close> block.\<close>

fun is_failure :: "fetch_outcome \<Rightarrow> bool" where
  "is_failure (GetRaises e) = True"
| "is_failure (TextRaises e) = True"
| "is_failure (Parsed d) = False"

text \<open>A fetch that reaches line 80: the response is obtained.\<close>

fun response_obtained :: "fetch_outcome \<Rightarrow> bool" where
  "response_obtained (GetRaises e) = False"
| "response_obtained (TextRaises e) = True"
| "response_obtained (Parsed d) = True"

text \<open>
  The values of the three properties, in the order of their declarations: temperature,
  barometric pressure, wind speed.
\<close>

definition readings :: "station \<Rightarrow> json \<times> json \<times> json" where
  "readings s = (val (temperature s), val (barometic_pressure s), val (wind_speed s))"

text \<open>The values of the two properties that lines 87 and 89 assign.\<close>

definition temperature_wind :: "station \<Rightarrow> json \<times> json" where
  "temperature_wind s = (val (temperature s), val (wind_speed s))"

text \<open>A document that carries the three observation fields, with their values.\<close>

definition observes :: "json \<Rightarrow> json \<times> json \<times> json \<Rightarrow> bool" where
  "observes d r =
     (observation d ''temp_f'' = Inr (fst r) \<and>
      observation d ''pressure_in'' = Inr (fst (snd r)) \<and>
      observation d ''wind_mph'' = Inr (snd (snd r)))"

text \<open>A document for which one of the three lookups of lines 87 to 89 raises.\<close>

definition missing_field :: "json \<Rightarrow> bool" where
  "missing_field d =
     (isl (observation d ''temp_f'') \<or> isl (observation d ''pressure_in'') \<or>
      isl (observation d ''wind_mph''))"

text \<open>
  A conditions document of the weather service reduced to the three fields the station
  reads, as in the fallback document of \<open>__init__\<close>.
\<close>

definition conditions :: "int \<Rightarrow> int \<Rightarrow> int \<Rightarrow> json" where
  "conditions t p w =
     JObj [(''current_observation'',
            JObj [(''temp_f'', JInt t), (''pressure_in'', JInt p), (''wind_mph'', JInt w)])]"

subsection \<open>The target URL\<close>

text \<open>
  The options of \<open>required_config\<close> (lines 31 to 56); \<open>target_url\<close> is the aggregation
  computed by \<open>create_url\<close>.
\<close>

record config =
  weather_underground_api_key :: string
  state_code :: string
  city_name :: string
  seconds_for_timeout :: nat

text \<open>The defaults of the four options.\<close>

definition default_config :: config where
  "default_config =
     \<lparr>weather_underground_api_key = ''not a real key'', state_code = ''OR'',
      city_name = ''Corvallis'', seconds_for_timeout = 10\<rparr>"

text \<open>
  Python's \<open>str.format\<close> on positional str arguments, for templates whose replacement
  fields are all the automatic field \<open>{}\<close>: each \<open>{}\<close> takes the next argument, which is
  inserted as it is and not scanned again; \<open>{{\<close> and \<open>}}\<close> are literal braces; arguments
  left over are ignored; a \<open>{}\<close> with no argument left raises \<open>IndexError\<close>. A single
  brace and every other kind of field are reported as \<open>ValueError\<close>; the template of
  \<open>create_url\<close> has none.
\<close>

fun str_format :: "string \<Rightarrow> string list \<Rightarrow> exn + string" where
  "str_format [] args = Inr []"
| "str_format [c] args =
     (if c = CHR ''{'' \<or> c = CHR ''}'' then Inl ValueError else Inr [c])"
| "str_format (c # c' # cs) args =
     (if c = CHR ''{'' \<and> c' = CHR ''}'' then
        (case args of
           [] \<Rightarrow> Inl IndexError
         | a # as \<Rightarrow>
             (case str_format cs as of Inl e \<Rightarrow> Inl e | Inr r \<Rightarrow> Inr (a @ r)))
      else if (c = CHR ''{'' \<or> c = CHR ''}'') \<and> c' = c then
        (case str_format cs args of Inl e \<Rightarrow> Inl e | Inr r \<Rightarrow> Inr (c # r))
      else if c = CHR ''{'' \<or> c = CHR ''}'' then Inl ValueError
      else
        (case str_format (c' # cs) args of Inl e \<Rightarrow> Inl e | Inr r \<Rightarrow> Inr (c # r)))"

text \<open>Lines 20 to 27. The arguments \<open>local_namespace\<close> and \<open>args\<close> are not used.\<close>

definition create_url :: "config \<Rightarrow> 'n \<Rightarrow> 'a \<Rightarrow> exn + string" where
  "create_url config local_namespace args =
     str_format ''http://api.wunderground.com/api/{}/conditions/q/{}/{}.json''
       [weather_underground_api_key config, state_code config, city_name config]"

section \<open>Properties\<close>

subsection \<open>Auxiliary facts\<close>

lemma observation_empty: "observation (JObj []) k = Inl KeyError"
  by (simp add: observation_def)

lemma observes_conditions: "observes (conditions t p w) (JInt t, JInt p, JInt w)"
  by (simp add: observes_def observation_def conditions_def)

lemma assign_properties_observes:
  assumes "observes (weather_data s) (t, p, w)"
  shows "assign_properties s =
     (None, s\<lparr>temperature := assign (temperature s) t,
              barometric_pressure := Some p,
              wind_speed := assign (wind_speed s) w\<rparr>)"
  using assms by (simp add: assign_properties_def observes_def Let_def)

lemma assign_properties_no_temp:
  assumes "observation (weather_data s) ''temp_f'' = Inl e"
  shows "assign_properties s = (Some e, s)"
  using assms by (simp add: assign_properties_def)

lemma assign_properties_snapshots:
  assumes "assign_properties s = (r, s')"
  shows "weather_data s' = weather_data s \<and> fallback_weather_data s' = fallback_weather_data s"
  using assms by (auto simp: assign_properties_def Let_def split: sum.splits)

lemma assign_properties_metadata:
  assumes "assign_properties s = (r, s')"
  shows "name (temperature s') = name (temperature s) \<and>
         description (temperature s') = description (temperature s) \<and>
         units (temperature s') = units (temperature s) \<and>
         name (barometic_pressure s') = name (barometic_pressure s) \<and>
         description (barometic_pressure s') = description (barometic_pressure s) \<and>
         units (barometic_pressure s') = units (barometic_pressure s) \<and>
         name (wind_speed s') = name (wind_speed s) \<and>
         description (wind_speed s') = description (wind_speed s) \<and>
         units (wind_speed s') = units (wind_speed s)"
  using assms by (auto simp: assign_properties_def assign_def Let_def split: sum.splits)

lemma get_weather_data_parsed:
  assumes "observes d (t, p, w)"
  shows "get_weather_data (Parsed d) s =
     \<lparr>raised = None, logged = [],
      station_after =
        s\<lparr>fallback_weather_data := weather_data s, weather_data := d,
          temperature := assign (temperature s) t,
          barometric_pressure := Some p,
          wind_speed := assign (wind_speed s) w\<rparr>\<rparr>"
  using assms by (simp add: get_weather_data_def assign_properties_observes)

lemma get_weather_data_get_raises:
  assumes "e \<noteq> CancelledError" and "observes (fallback_weather_data s) (t, p, w)"
  shows "get_weather_data (GetRaises e) s =
     \<lparr>raised = None, logged = [Critical e],
      station_after =
        s\<lparr>weather_data := fallback_weather_data s,
          temperature := assign (temperature s) t,
          barometric_pressure := Some p,
          wind_speed := assign (wind_speed s) w\<rparr>\<rparr>"
  using assms by (simp add: get_weather_data_def assign_properties_observes)

lemma get_weather_data_text_raises:
  assumes "e \<noteq> CancelledError" and "observes (weather_data s) (t, p, w)"
  shows "get_weather_data (TextRaises e) s =
     \<lparr>raised = None, logged = [Critical e],
      station_after =
        s\<lparr>fallback_weather_data := weather_data s,
          temperature := assign (temperature s) t,
          barometric_pressure := Some p,
          wind_speed := assign (wind_speed s) w\<rparr>\<rparr>"
  using assms by (simp add: get_weather_data_def assign_properties_observes)

lemma get_weather_data_get_raises_empty:
  assumes "e \<noteq> CancelledError" and "fallback_weather_data s = JObj []"
  shows "get_weather_data (GetRaises e) s =
     \<lparr>raised = Some KeyError, logged = [Critical e],
      station_after = s\<lparr>weather_data := JObj []\<rparr>\<rparr>"
  using assms
  by (simp add: get_weather_data_def assign_properties_no_temp observation_empty)

lemma get_weather_data_text_raises_empty:
  assumes "e \<noteq> CancelledError" and "weather_data s = JObj []"
  shows "get_weather_data (TextRaises e) s =
     \<lparr>raised = Some KeyError, logged = [Critical e],
      station_after = s\<lparr>fallback_weather_data := JObj []\<rparr>\<rparr>"
  using assms
  by (simp add: get_weather_data_def assign_properties_no_temp observation_empty)

lemma get_weather_data_cancelled:
  "get_weather_data (GetRaises CancelledError) s =
     \<lparr>raised = Some CancelledError, logged = [], station_after = s\<rparr>"
  "get_weather_data (TextRaises CancelledError) s =
     \<lparr>raised = Some CancelledError, logged = [],
      station_after = s\<lparr>fallback_weather_data := weather_data s\<rparr>\<rparr>"
  by (simp_all add: get_weather_data_def)

lemma failure_keeps_temperature_wind:
  assumes A: "observes A (t, p, w)"
    and r: "temperature_wind s = (t, w)"
    and wd: "weather_data s = A \<or> weather_data s = JObj []"
    and fb: "fallback_weather_data s = A \<or> fallback_weather_data s = JObj []"
    and f: "is_failure f"
  shows "temperature_wind (station_after (get_weather_data f s)) = (t, w) \<and>
         (weather_data (station_after (get_weather_data f s)) = A \<or>
          weather_data (station_after (get_weather_data f s)) = JObj []) \<and>
         (fallback_weather_data (station_after (get_weather_data f s)) = A \<or>
          fallback_weather_data (station_after (get_weather_data f s)) = JObj [])"
proof (cases f)
  case (GetRaises e)
  show ?thesis
  proof (cases "e = CancelledError")
    case True
    with GetRaises r wd fb show ?thesis by (simp add: get_weather_data_cancelled)
  next
    case False
    from fb show ?thesis
    proof
      assume "fallback_weather_data s = A"
      with A False GetRaises wd show ?thesis
        by (simp add: get_weather_data_get_raises [where t = t and p = p and w = w]
            temperature_wind_def assign_def)
    next
      assume "fallback_weather_data s = JObj []"
      with False GetRaises r show ?thesis
        by (simp add: get_weather_data_get_raises_empty temperature_wind_def)
    qed
  qed
next
  case (TextRaises e)
  show ?thesis
  proof (cases "e = CancelledError")
    case True
    with TextRaises r wd show ?thesis
      by (simp add: get_weather_data_cancelled temperature_wind_def)
  next
    case False
    from wd show ?thesis
    proof
      assume "weather_data s = A"
      with A False TextRaises show ?thesis
        by (simp add: get_weather_data_text_raises [where t = t and p = p and w = w]
            temperature_wind_def assign_def)
    next
      assume "weather_data s = JObj []"
      with False TextRaises r show ?thesis
        by (simp add: get_weather_data_text_raises_empty temperature_wind_def)
    qed
  qed
next
  case (Parsed d)
  with f show ?thesis by simp
qed

lemma late_failure_keeps_temperature_wind:
  assumes A: "observes A (t, p, w)"
    and r: "temperature_wind s = (t, w)"
    and wd: "weather_data s = A"
  shows "temperature_wind (station_after (get_weather_data (TextRaises e) s)) = (t, w) \<and>
         weather_data (station_after (get_weather_data (TextRaises e) s)) = A"
proof (cases "e = CancelledError")
  case True
  with r wd show ?thesis by (simp add: get_weather_data_cancelled temperature_wind_def)
next
  case False
  with A wd show ?thesis
    by (simp add: get_weather_data_text_raises [where t = t and p = p and w = w]
        temperature_wind_def assign_def)
qed

text \<open>No call touches the property declared with the name \<open>'barometric_pressure'\<close>.\<close>

lemma assign_properties_declared_pressure:
  assumes "assign_properties s = (r, s')"
  shows "barometic_pressure s' = barometic_pressure s"
  using assms by (auto simp: assign_properties_def Let_def split: sum.splits)

lemma get_weather_data_declared_pressure:
  "barometic_pressure (station_after (get_weather_data out s)) = barometic_pressure s"
  by (cases out; simp add: get_weather_data_def Let_def split: prod.splits;
      auto dest: assign_properties_declared_pressure)

lemma get_weather_data_snapshots:
  "weather_data (station_after (get_weather_data out s)) =
     (case out of
        GetRaises e \<Rightarrow> if e = CancelledError then weather_data s else fallback_weather_data s
      | TextRaises e \<Rightarrow> weather_data s
      | Parsed d \<Rightarrow> d)"
  "fallback_weather_data (station_after (get_weather_data out s)) =
     (case out of
        GetRaises e \<Rightarrow> fallback_weather_data s
      | TextRaises e \<Rightarrow> weather_data s
      | Parsed d \<Rightarrow> weather_data s)"
  by (cases out; simp add: get_weather_data_def Let_def split: prod.splits;
      auto dest: assign_properties_snapshots)+

lemma get_weather_data_metadata:
  "name (temperature (station_after (get_weather_data out s))) = name (temperature s) \<and>
   description (temperature (station_after (get_weather_data out s))) =
     description (temperature s) \<and>
   units (temperature (station_after (get_weather_data out s))) = units (temperature s) \<and>
   name (barometic_pressure (station_after (get_weather_data out s))) =
     name (barometic_pressure s) \<and>
   description (barometic_pressure (station_after (get_weather_data out s))) =
     description (barometic_pressure s) \<and>
   units (barometic_pressure (station_after (get_weather_data out s))) =
     units (barometic_pressure s) \<and>
   name (wind_speed (station_after (get_weather_data out s))) = name (wind_speed s) \<and>
   description (wind_speed (station_after (get_weather_data out s))) =
     description (wind_speed s) \<and>
   units (wind_speed (station_after (get_weather_data out s))) = units (wind_speed s)"
proof (cases "try_block out s")
  case (Pair x s1)
  obtain r s3 where a: "assign_properties s1 = (r, s3)" by (cases "assign_properties s1")
  obtain r' s3' where b:
    "assign_properties (s1\<lparr>weather_data := fallback_weather_data s1\<rparr>) = (r', s3')"
    by (cases "assign_properties (s1\<lparr>weather_data := fallback_weather_data s1\<rparr>)")
  have s1: "temperature s1 = temperature s \<and> barometic_pressure s1 = barometic_pressure s \<and>
    wind_speed s1 = wind_speed s"
    using Pair by (cases out) auto
  show ?thesis
    using Pair a b s1 assign_properties_metadata [OF a] assign_properties_metadata [OF b]
    by (cases x) (simp_all add: get_weather_data_def)
qed

lemma subscript_error: "subscript d k = Inl e \<Longrightarrow> e = KeyError \<or> e = TypeError"
  by (cases d) (auto split: option.splits)

lemma observation_error: "observation d k = Inl e \<Longrightarrow> e = KeyError \<or> e = TypeError"
  by (auto simp: observation_def split: sum.splits dest: subscript_error)

lemma poll_Cons: "poll (out # outs) s = poll outs (station_after (get_weather_data out s))"
  by (simp add: poll_def)

lemma poll_get_raises_fallback:
  "fallback_weather_data (poll (map GetRaises es) s) = fallback_weather_data s"
  by (induction es arbitrary: s) (simp_all add: poll_def get_weather_data_snapshots)

subsection \<open>Fallback across cycles\<close>

text \<open>
  Claim C1 as stated: in every run whose fetches are a success with \<open>A\<close>, two failures
  and a success with \<open>B\<close>, the three properties show the values of \<open>A\<close>, \<open>A\<close>,
  \<open>A\<close> and \<open>B\<close>, and a failed cycle leaves them as the last successful cycle did.
  On a station that has accepted the readings 1, 2, 3 before, the run accepts
  72, 29, 5 and then its request fails: temperature and wind speed go back to 1 and 3.
  And on a fresh station that accepts 72, 29, 5 the barometric pressure property still
  holds its initial 30.
\<close>

theorem fallback_correctness_counterexample:
  "temperature_wind (poll [Parsed (conditions 72 29 5)]
     (poll [Parsed (conditions 1 2 3)] init_station)) = (JInt 72, JInt 5) \<and>
   temperature_wind (poll [Parsed (conditions 72 29 5), GetRaises ClientError]
     (poll [Parsed (conditions 1 2 3)] init_station)) = (JInt 1, JInt 3) \<and>
   observation (conditions 72 29 5) ''pressure_in'' = Inr (JInt 29) \<and>
   readings (poll [Parsed (conditions 72 29 5)] init_station) = (JInt 72, JInt 30, JInt 5)"
  by (simp add: poll_def get_weather_data_def assign_properties_def observation_def
      conditions_def assign_def init_station_def readings_def temperature_wind_def)

text \<open>
  Claim C1, amended. On a freshly constructed station, for every run whose fetches are a
  success with \<open>A\<close>, two failures (at either place of the \<open>try\<close> block, with any
  exception) and a success with \<open>B\<close>, the values of temperature and wind speed after
  the four calls are those of \<open>A\<close>, \<open>A\<close>, \<open>A\<close> and \<open>B\<close>: a failed cycle leaves
  them as the last successful cycle did, and their initial values do not come back. On
  any station the same holds when both failures happen after the response is obtained.
\<close>

theorem fallback_correctness:
  assumes A: "observes A (ta, pa, wa)" and B: "observes B (tb, pb, wb)"
  shows "(is_failure f2 \<and> is_failure f3 \<longrightarrow>
            temperature_wind (poll [Parsed A] init_station) = (ta, wa) \<and>
            temperature_wind (poll [Parsed A, f2] init_station) = (ta, wa) \<and>
            temperature_wind (poll [Parsed A, f2, f3] init_station) = (ta, wa) \<and>
            temperature_wind (poll [Parsed A, f2, f3, Parsed B] init_station) = (tb, wb)) \<and>
         temperature_wind (poll [Parsed A] s) = (ta, wa) \<and>
         temperature_wind (poll [Parsed A, TextRaises e2] s) = (ta, wa) \<and>
         temperature_wind (poll [Parsed A, TextRaises e2, TextRaises e3] s) = (ta, wa) \<and>
         temperature_wind (poll [Parsed A, TextRaises e2, TextRaises e3, Parsed B] s) =
           (tb, wb)"
proof -
  have fresh: "temperature_wind (poll [Parsed A] init_station) = (ta, wa) \<and>
      temperature_wind (poll [Parsed A, f2] init_station) = (ta, wa) \<and>
      temperature_wind (poll [Parsed A, f2, f3] init_station) = (ta, wa) \<and>
      temperature_wind (poll [Parsed A, f2, f3, Parsed B] init_station) = (tb, wb)"
    if f2: "is_failure f2" and f3: "is_failure f3"
  proof -
    define s1 where "s1 = station_after (get_weather_data (Parsed A) init_station)"
    define s2 where "s2 = station_after (get_weather_data f2 s1)"
    define s3 where "s3 = station_after (get_weather_data f3 s2)"
    define s4 where "s4 = station_after (get_weather_data (Parsed B) s3)"
    have i1: "temperature_wind s1 = (ta, wa) \<and>
        (weather_data s1 = A \<or> weather_data s1 = JObj []) \<and>
        (fallback_weather_data s1 = A \<or> fallback_weather_data s1 = JObj [])"
      unfolding s1_def
      by (simp add: get_weather_data_parsed [OF A] temperature_wind_def assign_def
          init_station_def)
    have i2: "temperature_wind s2 = (ta, wa) \<and>
        (weather_data s2 = A \<or> weather_data s2 = JObj []) \<and>
        (fallback_weather_data s2 = A \<or> fallback_weather_data s2 = JObj [])"
      unfolding s2_def using i1 f2 by (intro failure_keeps_temperature_wind [OF A]) simp_all
    have i3: "temperature_wind s3 = (ta, wa)"
      unfolding s3_def using i2 f3 failure_keeps_temperature_wind [OF A, of s2 f3] by simp
    have i4: "temperature_wind s4 = (tb, wb)"
      unfolding s4_def
      by (simp add: get_weather_data_parsed [OF B] temperature_wind_def assign_def)
    show ?thesis
      using i1 i2 i3 i4 by (simp add: poll_def s1_def s2_def s3_def s4_def)
  qed
  define u1 where "u1 = station_after (get_weather_data (Parsed A) s)"
  define u2 where "u2 = station_after (get_weather_data (TextRaises e2) u1)"
  define u3 where "u3 = station_after (get_weather_data (TextRaises e3) u2)"
  define u4 where "u4 = station_after (get_weather_data (Parsed B) u3)"
  have j1: "temperature_wind u1 = (ta, wa) \<and> weather_data u1 = A"
    unfolding u1_def
    by (simp add: get_weather_data_parsed [OF A] temperature_wind_def assign_def)
  have j2: "temperature_wind u2 = (ta, wa) \<and> weather_data u2 = A"
    unfolding u2_def using j1 by (intro late_failure_keeps_temperature_wind [OF A]) simp_all
  have j3: "temperature_wind u3 = (ta, wa)"
    unfolding u3_def using j2 late_failure_keeps_temperature_wind [OF A, of u2 e3] by simp
  have j4: "temperature_wind u4 = (tb, wb)"
    unfolding u4_def
    by (simp add: get_weather_data_parsed [OF B] temperature_wind_def assign_def)
  have any: "temperature_wind (poll [Parsed A] s) = (ta, wa) \<and>
      temperature_wind (poll [Parsed A, TextRaises e2] s) = (ta, wa) \<and>
      temperature_wind (poll [Parsed A, TextRaises e2, TextRaises e3] s) = (ta, wa) \<and>
      temperature_wind (poll [Parsed A, TextRaises e2, TextRaises e3, Parsed B] s) = (tb, wb)"
    using j1 j2 j3 j4 by (simp add: poll_def u1_def u2_def u3_def u4_def)
  show ?thesis using fresh any by blast
qed

text \<open>
  The hypotheses of the amended C1 hold for two conditions documents, a timeout of the
  request and a malformed body; the station of the second part has accepted the readings
  1, 2, 3 before.
\<close>

theorem fallback_correctness_witness:
  "observes (conditions 72 29 5) (JInt 72, JInt 29, JInt 5) \<and>
   observes (conditions 60 30 7) (JInt 60, JInt 30, JInt 7) \<and>
   is_failure (GetRaises TimeoutError) \<and> is_failure (TextRaises JSONDecodeError) \<and>
   temperature_wind (poll [Parsed (conditions 72 29 5)] init_station) = (JInt 72, JInt 5) \<and>
   temperature_wind (poll [Parsed (conditions 72 29 5), GetRaises TimeoutError]
     init_station) = (JInt 72, JInt 5) \<and>
   temperature_wind (poll [Parsed (conditions 72 29 5), GetRaises TimeoutError,
     TextRaises JSONDecodeError] init_station) = (JInt 72, JInt 5) \<and>
   temperature_wind (poll [Parsed (conditions 72 29 5), GetRaises TimeoutError,
     TextRaises JSONDecodeError, Parsed (conditions 60 30 7)] init_station) =
     (JInt 60, JInt 7) \<and>
   temperature_wind (poll [Parsed (conditions 72 29 5), TextRaises TimeoutError]
     (poll [Parsed (conditions 1 2 3)] init_station)) = (JInt 72, JInt 5) \<and>
   temperature_wind (poll [Parsed (conditions 72 29 5), TextRaises TimeoutError,
     TextRaises JSONDecodeError] (poll [Parsed (conditions 1 2 3)] init_station)) =
     (JInt 72, JInt 5) \<and>
   temperature_wind (poll [Parsed (conditions 72 29 5), TextRaises TimeoutError,
     TextRaises JSONDecodeError, Parsed (conditions 60 30 7)]
     (poll [Parsed (conditions 1 2 3)] init_station)) = (JInt 60, JInt 7)"
proof -
  have A: "observes (conditions 72 29 5) (JInt 72, JInt 29, JInt 5)"
    by (rule observes_conditions)
  have B: "observes (conditions 60 30 7) (JInt 60, JInt 30, JInt 7)"
    by (rule observes_conditions)
  have f2: "is_failure (GetRaises TimeoutError)" by simp
  have f3: "is_failure (TextRaises JSONDecodeError)" by simp
  show ?thesis
    using A B f2 f3
      fallback_correctness [OF A B, of "GetRaises TimeoutError" "TextRaises JSONDecodeError"
        "poll [Parsed (conditions 1 2 3)] init_station" TimeoutError JSONDecodeError]
    by simp
qed

subsection \<open>Where the rotation happens\<close>

text \<open>
  Claim C2 as stated: in every call the fallback slot takes the value that the current
  slot held before the fetch, and it does so before the network attempt, so also when the
  attempt fails. On a fresh station whose request fails with a transport error the
  fallback slot is not overwritten: it still holds the document of \<open>__init__\<close>, not the
  empty dict that \<open>weather_data\<close> held.
\<close>

theorem rotation_before_request_counterexample:
  "fallback_weather_data (station_after (get_weather_data (GetRaises ClientError) init_station)) =
     fallback_weather_data init_station \<and>
   fallback_weather_data (station_after (get_weather_data (GetRaises ClientError) init_station)) \<noteq>
     weather_data init_station"
  by (simp add: get_weather_data_snapshots init_station_def)

text \<open>
  Claim C2, amended. The fallback slot is only ever overwritten with the value that the
  current slot held when the call began, and the rotation happens once the response has
  been obtained, before its body is read and parsed: a call whose request fails leaves
  the fallback slot as it was, a call that fails while reading or parsing the body has
  already rotated, and so has a call that succeeds. Nothing after the \<open>try\<close> block
  touches the fallback slot.
\<close>

theorem rotation_after_response:
  "fallback_weather_data (station_after (get_weather_data out s)) =
     (case out of
        GetRaises e \<Rightarrow> fallback_weather_data s
      | TextRaises e \<Rightarrow> weather_data s
      | Parsed d \<Rightarrow> weather_data s) \<and>
   fallback_weather_data (snd (try_block out s)) =
     fallback_weather_data (station_after (get_weather_data out s))"
  by (cases out) (simp_all add: get_weather_data_snapshots)

subsection \<open>Which failures are contained\<close>

text \<open>
  Claim C3 as stated: no ordinary failure, a parsed document without the observation
  fields included, makes \<open>get_weather_data\<close> raise. The error document of the weather
  service has no \<open>current_observation\<close>; when a fetch succeeds with it, the lookup of
  line 87 raises \<open>KeyError\<close> to the caller.
\<close>

theorem never_raises_counterexample:
  "raised (get_weather_data (Parsed (JObj [(''response'', JObj [])])) init_station) =
     Some KeyError"
  by (simp add: get_weather_data_def assign_properties_def observation_def)

text \<open>
  Claim C3, amended. A transport error, a timeout or a malformed body is caught, logged
  once at critical level, and \<open>weather_data\<close> is restored from the fallback slot: after
  a failure of the request it is the document of the fallback slot, after a failure past
  the response it is the document that was current. When the restored document carries
  the three observation fields the call returns normally, with temperature and wind
  speed bound to its values. A parsed document that misses an expected field is not
  contained: the \<open>KeyError\<close> or \<open>TypeError\<close> of the lookup reaches the caller. A
  cancellation is raised to the caller.
\<close>

theorem ordinary_failures_contained:
  "(e \<noteq> CancelledError \<longrightarrow>
      logged (get_weather_data (GetRaises e) s) = [Critical e] \<and>
      weather_data (station_after (get_weather_data (GetRaises e) s)) =
        fallback_weather_data s \<and>
      logged (get_weather_data (TextRaises e) s) = [Critical e] \<and>
      weather_data (station_after (get_weather_data (TextRaises e) s)) = weather_data s) \<and>
   (e \<noteq> CancelledError \<and> observes (fallback_weather_data s) (t1, p1, w1) \<longrightarrow>
      raised (get_weather_data (GetRaises e) s) = None \<and>
      temperature_wind (station_after (get_weather_data (GetRaises e) s)) = (t1, w1)) \<and>
   (e \<noteq> CancelledError \<and> observes (weather_data s) (t2, p2, w2) \<longrightarrow>
      raised (get_weather_data (TextRaises e) s) = None \<and>
      temperature_wind (station_after (get_weather_data (TextRaises e) s)) = (t2, w2)) \<and>
   (missing_field d \<longrightarrow>
      raised (get_weather_data (Parsed d) s) = Some KeyError \<or>
      raised (get_weather_data (Parsed d) s) = Some TypeError) \<and>
   raised (get_weather_data (GetRaises CancelledError) s) = Some CancelledError \<and>
   raised (get_weather_data (TextRaises CancelledError) s) = Some CancelledError"
proof -
  have l: "logged (get_weather_data (GetRaises e) s) = [Critical e] \<and>
      weather_data (station_after (get_weather_data (GetRaises e) s)) =
        fallback_weather_data s \<and>
      logged (get_weather_data (TextRaises e) s) = [Critical e] \<and>
      weather_data (station_after (get_weather_data (TextRaises e) s)) = weather_data s"
    if "e \<noteq> CancelledError"
    using that
    by (simp add: get_weather_data_snapshots)
      (simp add: get_weather_data_def split: prod.splits)
  have a: "raised (get_weather_data (GetRaises e) s) = None \<and>
      temperature_wind (station_after (get_weather_data (GetRaises e) s)) = (t1, w1)"
    if "e \<noteq> CancelledError" "observes (fallback_weather_data s) (t1, p1, w1)"
    using that
    by (simp add: get_weather_data_get_raises [where t = t1 and p = p1 and w = w1]
        temperature_wind_def assign_def)
  have b: "raised (get_weather_data (TextRaises e) s) = None \<and>
      temperature_wind (station_after (get_weather_data (TextRaises e) s)) = (t2, w2)"
    if "e \<noteq> CancelledError" "observes (weather_data s) (t2, p2, w2)"
    using that
    by (simp add: get_weather_data_text_raises [where t = t2 and p = p2 and w = w2]
        temperature_wind_def assign_def)
  have c: "raised (get_weather_data (Parsed d) s) = Some KeyError \<or>
      raised (get_weather_data (Parsed d) s) = Some TypeError"
    if "missing_field d"
    using that
    by (auto simp: missing_field_def get_weather_data_def assign_properties_def Let_def isl_def
        split: sum.splits dest: observation_error)
  show ?thesis
    using l a b c by (simp add: get_weather_data_cancelled)
qed

text \<open>
  The hypotheses of the amended C3 hold on a station that has fetched a conditions
  document and then a malformed body, for a timeout and for the error document.
\<close>

theorem ordinary_failures_contained_witness:
  "TimeoutError \<noteq> CancelledError \<and>
   observes (fallback_weather_data
     (poll [Parsed (conditions 72 29 5), TextRaises JSONDecodeError] init_station))
     (JInt 72, JInt 29, JInt 5) \<and>
   observes (weather_data
     (poll [Parsed (conditions 72 29 5), TextRaises JSONDecodeError] init_station))
     (JInt 72, JInt 29, JInt 5) \<and>
   missing_field (JObj [(''response'', JObj [])]) \<and>
   logged (get_weather_data (GetRaises TimeoutError)
     (poll [Parsed (conditions 72 29 5), TextRaises JSONDecodeError] init_station)) =
     [Critical TimeoutError] \<and>
   raised (get_weather_data (GetRaises TimeoutError)
     (poll [Parsed (conditions 72 29 5), TextRaises JSONDecodeError] init_station)) = None \<and>
   temperature_wind (station_after (get_weather_data (GetRaises TimeoutError)
     (poll [Parsed (conditions 72 29 5), TextRaises JSONDecodeError] init_station))) =
     (JInt 72, JInt 5) \<and>
   raised (get_weather_data (TextRaises TimeoutError)
     (poll [Parsed (conditions 72 29 5), TextRaises JSONDecodeError] init_station)) = None \<and>
   temperature_wind (station_after (get_weather_data (TextRaises TimeoutError)
     (poll [Parsed (conditions 72 29 5), TextRaises JSONDecodeError] init_station))) =
     (JInt 72, JInt 5) \<and>
   (raised (get_weather_data (Parsed (JObj [(''response'', JObj [])]))
     (poll [Parsed (conditions 72 29 5), TextRaises JSONDecodeError] init_station)) =
      Some KeyError \<or>
    raised (get_weather_data (Parsed (JObj [(''response'', JObj [])]))
     (poll [Parsed (conditions 72 29 5), TextRaises JSONDecodeError] init_station)) =
      Some TypeError)"
proof -
  define s where
    "s = poll [Parsed (conditions 72 29 5), TextRaises JSONDecodeError] init_station"
  have wd: "weather_data s = conditions 72 29 5"
    and fb: "fallback_weather_data s = conditions 72 29 5"
    by (simp_all add: s_def poll_def get_weather_data_snapshots)
  have e: "TimeoutError \<noteq> CancelledError" by simp
  have o1: "observes (fallback_weather_data s) (JInt 72, JInt 29, JInt 5)"
    unfolding fb by (rule observes_conditions)
  have o2: "observes (weather_data s) (JInt 72, JInt 29, JInt 5)"
    unfolding wd by (rule observes_conditions)
  have m: "missing_field (JObj [(''response'', JObj [])])"
    by (simp add: missing_field_def observation_def)
  show ?thesis
    using e o1 o2 m
      ordinary_failures_contained [of TimeoutError s "JInt 72" "JInt 29" "JInt 5"
        "JInt 72" "JInt 29" "JInt 5" "JObj [(''response'', JObj [])]"]
    unfolding s_def by simp
qed

subsection \<open>A first cycle that fails\<close>

text \<open>
  Claim C4 as stated: after a first call that fails, the properties hold their declared
  initial values 0, 30 and 30. When the request of the first call fails with a transport
  error, the call returns normally and the wind speed has gone from 30 to 0, the value
  of the fallback document of \<open>__init__\<close>.
\<close>

theorem first_cycle_failure_counterexample:
  "raised (get_weather_data (GetRaises ClientError) init_station) = None \<and>
   val (wind_speed init_station) = JInt 30 \<and>
   val (wind_speed (station_after (get_weather_data (GetRaises ClientError) init_station))) =
     JInt 0 \<and>
   readings (station_after (get_weather_data (GetRaises ClientError) init_station)) \<noteq>
     (JInt 0, JInt 30, JInt 30)"
  by (simp add: get_weather_data_def assign_properties_def observation_def assign_def
      init_station_def readings_def)

text \<open>
  Claim C4, amended. The declared initial values are 0, 30 and 30. If the first call
  fails with an ordinary error before the response is obtained, it returns normally and
  temperature and wind speed hold the values of the zero-filled fallback document of
  \<open>__init__\<close>, 0 and 0: the wind speed has left its declared 30. If the first call
  fails after the response is obtained, the three properties still hold their declared
  initial values 0, 30 and 30.
\<close>

theorem first_cycle_failure:
  "readings init_station = (JInt 0, JInt 30, JInt 30) \<and>
   (e \<noteq> CancelledError \<longrightarrow>
      raised (get_weather_data (GetRaises e) init_station) = None \<and>
      temperature_wind (station_after (get_weather_data (GetRaises e) init_station)) =
        (JInt 0, JInt 0)) \<and>
   readings (station_after (get_weather_data (TextRaises e) init_station)) =
     (JInt 0, JInt 30, JInt 30)"
proof -
  have z: "observes (fallback_weather_data init_station) (JInt 0, JInt 0, JInt 0)"
    by (simp add: init_station_def observes_def observation_def)
  have a: "readings init_station = (JInt 0, JInt 30, JInt 30)"
    by (simp add: readings_def init_station_def)
  have b: "raised (get_weather_data (GetRaises e) init_station) = None \<and>
      temperature_wind (station_after (get_weather_data (GetRaises e) init_station)) =
        (JInt 0, JInt 0)" if "e \<noteq> CancelledError"
    using that
    by (simp add: get_weather_data_get_raises [OF _ z] temperature_wind_def assign_def)
  have c: "readings (station_after (get_weather_data (TextRaises e) init_station)) =
     (JInt 0, JInt 30, JInt 30)"
  proof (cases "e = CancelledError")
    case True
    then show ?thesis by (simp add: get_weather_data_cancelled readings_def init_station_def)
  next
    case False
    have "weather_data init_station = JObj []" by (simp add: init_station_def)
    with False show ?thesis
      by (simp add: get_weather_data_text_raises_empty readings_def init_station_def)
  qed
  show ?thesis using a b c by simp
qed

text \<open>The amended C4 at a timeout.\<close>

theorem first_cycle_failure_witness:
  "TimeoutError \<noteq> CancelledError \<and>
   raised (get_weather_data (GetRaises TimeoutError) init_station) = None \<and>
   temperature_wind (station_after (get_weather_data (GetRaises TimeoutError) init_station)) =
     (JInt 0, JInt 0) \<and>
   readings (station_after (get_weather_data (TextRaises TimeoutError) init_station)) =
     (JInt 0, JInt 30, JInt 30)"
  using first_cycle_failure [of TimeoutError] by simp

subsection \<open>A document that misses a field\<close>

text \<open>
  Claim C5 as stated: a parsed document that misses an expected field leaves the three
  properties unchanged and produces exactly one critical log record. A document with
  \<open>temp_f\<close> and without \<open>pressure_in\<close>, fetched by a fresh station, changes the
  temperature from 0 to 72 while the wind speed stays at 30, and nothing is logged.
\<close>

theorem schema_mismatch_counterexample:
  "missing_field (JObj [(''current_observation'', JObj [(''temp_f'', JInt 72)])]) \<and>
   val (temperature init_station) = JInt 0 \<and>
   val (temperature (station_after (get_weather_data
     (Parsed (JObj [(''current_observation'', JObj [(''temp_f'', JInt 72)])]))
     init_station))) = JInt 72 \<and>
   val (wind_speed (station_after (get_weather_data
     (Parsed (JObj [(''current_observation'', JObj [(''temp_f'', JInt 72)])]))
     init_station))) = JInt 30 \<and>
   logged (get_weather_data
     (Parsed (JObj [(''current_observation'', JObj [(''temp_f'', JInt 72)])]))
     init_station) = [] \<and>
   raised (get_weather_data
     (Parsed (JObj [(''current_observation'', JObj [(''temp_f'', JInt 72)])]))
     init_station) = Some KeyError \<and>
   readings (station_after (get_weather_data
     (Parsed (JObj [(''current_observation'', JObj [(''temp_f'', JInt 72)])]))
     init_station)) \<noteq> readings init_station"
  by (simp add: missing_field_def get_weather_data_def assign_properties_def observation_def
      assign_def init_station_def readings_def)

text \<open>
  Claim C5, amended. For a fetched and parsed document that misses an expected field,
  the call raises the error of the first failing lookup, a \<open>KeyError\<close> or a
  \<open>TypeError\<close>, to its caller and emits no log record; the document has replaced
  \<open>weather_data\<close> and the previous one is in the fallback slot. The assignments run in
  the order of lines 87 to 89 up to the first failing lookup: the temperature takes the
  document's value when \<open>temp_f\<close> is there and keeps its previous value when it is
  not, and the wind speed keeps its previous value.
\<close>

theorem schema_mismatch:
  assumes "missing_field d"
  shows "raised (get_weather_data (Parsed d) s) =
           (case observation d ''temp_f'' of
              Inl e \<Rightarrow> Some e
            | Inr t \<Rightarrow>
                (case observation d ''pressure_in'' of
                   Inl e \<Rightarrow> Some e
                 | Inr p \<Rightarrow>
                     (case observation d ''wind_mph'' of
                        Inl e \<Rightarrow> Some e
                      | Inr w \<Rightarrow> None))) \<and>
         (raised (get_weather_data (Parsed d) s) = Some KeyError \<or>
          raised (get_weather_data (Parsed d) s) = Some TypeError) \<and>
         logged (get_weather_data (Parsed d) s) = [] \<and>
         weather_data (station_after (get_weather_data (Parsed d) s)) = d \<and>
         fallback_weather_data (station_after (get_weather_data (Parsed d) s)) =
           weather_data s \<and>
         temperature (station_after (get_weather_data (Parsed d) s)) =
           (case observation d ''temp_f'' of
              Inl e \<Rightarrow> temperature s
            | Inr t \<Rightarrow> assign (temperature s) t) \<and>
         wind_speed (station_after (get_weather_data (Parsed d) s)) = wind_speed s"
  using assms
  by (auto simp: missing_field_def get_weather_data_def assign_properties_def Let_def isl_def
      split: sum.splits dest: observation_error)

text \<open>
  The amended C5 at the document with \<open>temp_f\<close> only, fetched by a fresh station.
\<close>

theorem schema_mismatch_witness:
  "missing_field (JObj [(''current_observation'', JObj [(''temp_f'', JInt 72)])]) \<and>
   raised (get_weather_data
     (Parsed (JObj [(''current_observation'', JObj [(''temp_f'', JInt 72)])]))
     init_station) = Some KeyError \<and>
   logged (get_weather_data
     (Parsed (JObj [(''current_observation'', JObj [(''temp_f'', JInt 72)])]))
     init_station) = [] \<and>
   val (temperature (station_after (get_weather_data
     (Parsed (JObj [(''current_observation'', JObj [(''temp_f'', JInt 72)])]))
     init_station))) = JInt 72 \<and>
   wind_speed (station_after (get_weather_data
     (Parsed (JObj [(''current_observation'', JObj [(''temp_f'', JInt 72)])]))
     init_station)) = wind_speed init_station"
proof -
  have m: "missing_field (JObj [(''current_observation'', JObj [(''temp_f'', JInt 72)])])"
    by (simp add: missing_field_def observation_def)
  have o: "observation (JObj [(''current_observation'', JObj [(''temp_f'', JInt 72)])])
      ''temp_f'' = Inr (JInt 72)"
    "observation (JObj [(''current_observation'', JObj [(''temp_f'', JInt 72)])])
      ''pressure_in'' = Inl KeyError"
    by (simp_all add: observation_def)
  show ?thesis
    using m schema_mismatch [OF m, of init_station] by (simp add: o assign_def)
qed

subsection \<open>Cancellation\<close>

text \<open>
  Claim C6 as stated: a cancellation at any suspension point propagates and leaves the
  properties, the current slot and the fallback slot untouched. A cancellation that
  arrives while the body of the response is read, on a fresh station, propagates, and
  the fallback slot has been overwritten with the empty dict of the current slot.
\<close>

theorem cancellation_purity_counterexample:
  "raised (get_weather_data (TextRaises CancelledError) init_station) = Some CancelledError \<and>
   fallback_weather_data (station_after (get_weather_data (TextRaises CancelledError) init_station))
     = weather_data init_station \<and>
   fallback_weather_data (station_after (get_weather_data (TextRaises CancelledError) init_station))
     \<noteq> fallback_weather_data init_station"
  by (simp add: get_weather_data_cancelled init_station_def)

text \<open>
  Claim C6, amended. A cancellation is raised to the caller as it is, nothing is logged,
  no property value changes and the current slot is not replaced by the fallback. When
  it arrives while the request is awaited the object is unchanged; when it arrives after
  the response is obtained, the rotation of line 80 has been done and the fallback slot
  holds the value of the current slot.
\<close>

theorem cancellation_propagates:
  "get_weather_data (GetRaises CancelledError) s =
     \<lparr>raised = Some CancelledError, logged = [], station_after = s\<rparr> \<and>
   get_weather_data (TextRaises CancelledError) s =
     \<lparr>raised = Some CancelledError, logged = [],
      station_after = s\<lparr>fallback_weather_data := weather_data s\<rparr>\<rparr> \<and>
   readings (station_after (get_weather_data (GetRaises CancelledError) s)) = readings s \<and>
   readings (station_after (get_weather_data (TextRaises CancelledError) s)) = readings s \<and>
   weather_data (station_after (get_weather_data (GetRaises CancelledError) s)) = weather_data s \<and>
   weather_data (station_after (get_weather_data (TextRaises CancelledError) s)) = weather_data s"
  by (simp add: get_weather_data_def readings_def)

subsection \<open>Timeout and transport error\<close>

text \<open>
  Claim C7. From the same object, a call that fails by a timeout and a call that fails
  by a transport error at the same place (while the request is awaited, or after the
  response is obtained) leave the same object, so the same three property values, and
  end the same way for the caller.
\<close>

theorem timeout_equivalence:
  "station_after (get_weather_data (GetRaises TimeoutError) s) =
     station_after (get_weather_data (GetRaises ClientError) s) \<and>
   raised (get_weather_data (GetRaises TimeoutError) s) =
     raised (get_weather_data (GetRaises ClientError) s) \<and>
   station_after (get_weather_data (TextRaises TimeoutError) s) =
     station_after (get_weather_data (TextRaises ClientError) s) \<and>
   raised (get_weather_data (TextRaises TimeoutError) s) =
     raised (get_weather_data (TextRaises ClientError) s) \<and>
   readings (station_after (get_weather_data (GetRaises TimeoutError) s)) =
     readings (station_after (get_weather_data (GetRaises ClientError) s)) \<and>
   readings (station_after (get_weather_data (TextRaises TimeoutError) s)) =
     readings (station_after (get_weather_data (TextRaises ClientError) s))"
  by (simp add: get_weather_data_def split: prod.splits)

subsection \<open>The empty dict in the fallback slot\<close>

text \<open>
  Claim C8. When the first call on a fresh station obtains a response, the fallback slot
  takes the empty dict that \<open>weather_data\<close> held at construction, and no longer the
  zero-filled document of \<open>__init__\<close>. It keeps it through any later calls whose request
  fails, and when such a call restores \<open>weather_data\<close> from the fallback slot, the
  lookup of \<open>'current_observation'\<close> in the restored document finds no such key: the
  call raises \<open>KeyError\<close>.
\<close>

theorem empty_fallback_after_first_response:
  assumes "response_obtained out" and "e \<noteq> CancelledError"
  shows "fallback_weather_data init_station = conditions 0 0 0 \<and>
         weather_data init_station = JObj [] \<and>
         fallback_weather_data (station_after (get_weather_data out init_station)) = JObj [] \<and>
         fallback_weather_data (poll (out # map GetRaises es) init_station) = JObj [] \<and>
         weather_data (station_after (get_weather_data (GetRaises e)
           (poll (out # map GetRaises es) init_station))) = JObj [] \<and>
         subscript (weather_data (station_after (get_weather_data (GetRaises e)
           (poll (out # map GetRaises es) init_station)))) ''current_observation'' =
           Inl KeyError \<and>
         raised (get_weather_data (GetRaises e)
           (poll (out # map GetRaises es) init_station)) = Some KeyError"
proof -
  have i: "fallback_weather_data init_station = conditions 0 0 0"
    "weather_data init_station = JObj []"
    by (simp_all add: init_station_def conditions_def)
  have a: "fallback_weather_data (station_after (get_weather_data out init_station)) = JObj []"
    using assms(1) i(2) by (cases out) (simp_all add: get_weather_data_snapshots)
  have b: "fallback_weather_data (poll (out # map GetRaises es) init_station) = JObj []"
    using a by (simp add: poll_Cons poll_get_raises_fallback)
  show ?thesis
    using i a b assms(2) by (simp add: get_weather_data_get_raises_empty [OF assms(2) b])
qed

text \<open>
  C8 at a first call that fetches a conditions document, followed by a cancelled request
  and then a request that fails with a transport error.
\<close>

theorem empty_fallback_after_first_response_witness:
  "response_obtained (Parsed (conditions 72 29 5)) \<and> ClientError \<noteq> CancelledError \<and>
   fallback_weather_data
     (station_after (get_weather_data (Parsed (conditions 72 29 5)) init_station)) = JObj [] \<and>
   weather_data (station_after (get_weather_data (GetRaises ClientError)
     (poll (Parsed (conditions 72 29 5) # map GetRaises [CancelledError]) init_station))) =
     JObj [] \<and>
   raised (get_weather_data (GetRaises ClientError)
     (poll (Parsed (conditions 72 29 5) # map GetRaises [CancelledError]) init_station)) =
     Some KeyError"
proof -
  have r: "response_obtained (Parsed (conditions 72 29 5))" by simp
  have e: "ClientError \<noteq> CancelledError" by simp
  show ?thesis
    using r e empty_fallback_after_first_response [OF r e, of "[CancelledError]"] by simp
qed

subsection \<open>The target URL is a function of three strings\<close>

text \<open>
  Claim C9. \<open>create_url\<close> never fails and its result is the fixed template with the API
  key, then the state code, then the city name in its three fields, each inserted as it
  is. So the result depends on these three strings only: two configurations that agree
  on them give the same URL, whatever the other option and the two unused arguments are.
\<close>

theorem create_url_template:
  "create_url c ns args =
     Inr (''http://api.wunderground.com/api/'' @ weather_underground_api_key c @
          ''/conditions/q/'' @ state_code c @ ''/'' @ city_name c @ ''.json'') \<and>
   (weather_underground_api_key c = weather_underground_api_key c' \<and>
    state_code c = state_code c' \<and> city_name c = city_name c' \<longrightarrow>
    create_url c ns args = create_url c' ns' args')"
  by (simp add: create_url_def)

text \<open>C9 at the default options, and with another timeout and other unused arguments.\<close>

theorem create_url_template_witness:
  "weather_underground_api_key default_config =
     weather_underground_api_key (default_config\<lparr>seconds_for_timeout := 3\<rparr>) \<and>
   state_code default_config = state_code (default_config\<lparr>seconds_for_timeout := 3\<rparr>) \<and>
   city_name default_config = city_name (default_config\<lparr>seconds_for_timeout := 3\<rparr>) \<and>
   create_url default_config () () =
     Inr ''http://api.wunderground.com/api/not a real key/conditions/q/OR/Corvallis.json'' \<and>
   create_url default_config () () =
     create_url (default_config\<lparr>seconds_for_timeout := 3\<rparr>) True [()]"
proof -
  note t = create_url_template
    [of default_config "()" "()" "default_config\<lparr>seconds_for_timeout := 3\<rparr>" True "[()]"]
  have a: "create_url default_config () () =
     Inr ''http://api.wunderground.com/api/not a real key/conditions/q/OR/Corvallis.json''"
    using t [THEN conjunct1] by (simp add: default_config_def)
  have b: "create_url default_config () () =
     create_url (default_config\<lparr>seconds_for_timeout := 3\<rparr>) True [()]"
    by (rule t [THEN conjunct2, THEN mp]) simp
  show ?thesis using a b by simp
qed

subsection \<open>Metadata\<close>

text \<open>
  Claim C10. Over any sequence of calls of \<open>get_weather_data\<close>, with any outcomes, the
  name, the description and the unit of each of the three declared properties are what
  they were before; only the values change.
\<close>

theorem metadata_stability:
  "name (temperature (poll outs s)) = name (temperature s) \<and>
   description (temperature (poll outs s)) = description (temperature s) \<and>
   units (temperature (poll outs s)) = units (temperature s) \<and>
   name (barometic_pressure (poll outs s)) = name (barometic_pressure s) \<and>
   description (barometic_pressure (poll outs s)) = description (barometic_pressure s) \<and>
   units (barometic_pressure (poll outs s)) = units (barometic_pressure s) \<and>
   name (wind_speed (poll outs s)) = name (wind_speed s) \<and>
   description (wind_speed (poll outs s)) = description (wind_speed s) \<and>
   units (wind_speed (poll outs s)) = units (wind_speed s)"
proof (induction outs arbitrary: s)
  case Nil
  show ?case by (simp add: poll_def)
next
  case (Cons out outs)
  have step: "poll (out # outs) s = poll outs (station_after (get_weather_data out s))"
    by (simp add: poll_def)
  show ?case
    unfolding step
    using Cons.IH [of "station_after (get_weather_data out s)"]
      get_weather_data_metadata [of out s]
    by simp
qed

end
